theory Spec2Isabelle
  imports Complex_Main "HOL-Library.Word"
begin

unbundle bit_operations_syntax

section \<open>Single-precision values\<close>

text \<open>
  Frame times, strip boundaries and distances are C \<open>float\<close>s. The searches below compare
  them, subtract them and start from \<open>std::numeric_limits<float>::infinity()\<close>, so the
  model keeps the special values apart from the finite ones. A finite value is the rational
  it denotes (every finite \<open>float\<close> is one; both zeros are \<open>Finite 0\<close>, they compare
  equal in C).
\<close>

datatype float = NaN | MInf | Finite rat | PInf

text \<open>C's \<open><=\<close> and \<open><\<close> on floats: every comparison with a NaN is false.\<close>

fun float_le :: "float \<Rightarrow> float \<Rightarrow> bool" where
  "float_le NaN _ = False"
| "float_le _ NaN = False"
| "float_le MInf _ = True"
| "float_le _ PInf = True"
| "float_le (Finite a) (Finite b) = (a \<le> b)"
| "float_le (Finite a) MInf = False"
| "float_le PInf (Finite b) = False"
| "float_le PInf MInf = False"

fun float_lt :: "float \<Rightarrow> float \<Rightarrow> bool" where
  "float_lt NaN _ = False"
| "float_lt _ NaN = False"
| "float_lt MInf MInf = False"
| "float_lt MInf _ = True"
| "float_lt PInf _ = False"
| "float_lt (Finite a) (Finite b) = (a < b)"
| "float_lt (Finite a) PInf = True"
| "float_lt (Finite a) MInf = False"

text \<open>
  Subtraction. The difference of two finite values is rounded to the format; the rounding
  \<open>rnd\<close> (which may overflow to an infinity) is a parameter of the model, so that every
  result below holds for whatever rounding the machine applies. The special cases are those
  of IEEE 754.
\<close>

fun float_sub :: "(rat \<Rightarrow> float) \<Rightarrow> float \<Rightarrow> float \<Rightarrow> float" where
  "float_sub rnd NaN _ = NaN"
| "float_sub rnd _ NaN = NaN"
| "float_sub rnd PInf PInf = NaN"
| "float_sub rnd MInf MInf = NaN"
| "float_sub rnd PInf _ = PInf"
| "float_sub rnd MInf _ = MInf"
| "float_sub rnd (Finite a) PInf = MInf"
| "float_sub rnd (Finite a) MInf = PInf"
| "float_sub rnd (Finite a) (Finite b) = rnd (a - b)"

fun fabs :: "float \<Rightarrow> float" where
  "fabs NaN = NaN"
| "fabs MInf = PInf"
| "fabs PInf = PInf"
| "fabs (Finite a) = Finite \<bar>a\<bar>"

text \<open>
  Modelled from the spec: \<open>min_ff\<close> is declared in \<open>BLI_math_base.h\<close>, which is not among
  the sources; the spec reads it as the minimum of the two boundary distances. On floats
  that is the smaller argument by \<open><\<close>, the second one when the comparison is false.
\<close>

definition min_ff :: "float \<Rightarrow> float \<Rightarrow> float" where
  "min_ff a b = (if float_lt a b then a else b)"

section \<open>The layered animation data model\<close>

type_synonym ID = string
type_synonym output_index = int
type_synonym PropIdentifier = "string \<times> int"

text \<open>
  An F-Curve. The struct \<open>FCurve\<close> is declared in \<open>DNA_anim_types.h\<close>, which is not among
  the sources: the record has the fields the functions below read or write
  (\<open>fcu->rna_path\<close>, \<open>fcu->flag\<close>, a \<open>short\<close>), the element index that completes the
  Property Identifier, and the keyframes as (time, value) pairs, which stand for the curve
  data.
\<close>

record FCurve =
  rna_path :: string
  array_index :: int
  flag :: "16 word"
  bezt :: "(rat \<times> rat) list"

text \<open>
  Modelled from the spec: \<open>ANIM_animation.hh\<close>, which declares \<open>Animation\<close>, \<open>Layer\<close>,
  \<open>Strip\<close>, \<open>KeyframeStrip\<close>, \<open>ChannelsForOutput\<close> and \<open>Output\<close> with their accessors, is
  not among the sources. The types and accessors follow the spec's data model: a
  Channels-For-Output is a mapping from Property Identifier to curve; a Keyframe Strip owns
  one such table per Output, addressed by the Output's stable index; a Strip is a time
  range with a variant tag and the variant's payload; a Layer is an ordered sequence of
  Strips; an Animation owns ordered Layers and its Outputs; an Output has a stable index
  and a nullable binding to one entity.
\<close>

type_synonym ChannelsForOutput = "PropIdentifier \<rightharpoonup> FCurve"

datatype Strip_Type = ANIM_STRIP_TYPE_KEYFRAME

record KeyframeStrip =
  channels :: "output_index \<rightharpoonup> ChannelsForOutput"

record Strip =
  frame_start :: float
  frame_end :: float
  strip_type :: Strip_Type
  key_strip :: KeyframeStrip

record Layer =
  name :: string
  strips :: "Strip list"

record Output =
  stable_index :: output_index
  bound_id :: "ID option"

record Animation =
  layers :: "Layer list"
  outputs :: "Output list"

text \<open>
  Modelled from the spec: \<open>Strip::contains_frame\<close>, true iff
  \<open>frame_start \<le> t \<le> frame_end\<close>.
\<close>

definition contains_frame :: "Strip \<Rightarrow> float \<Rightarrow> bool" where
  "contains_frame strip frame_time \<longleftrightarrow>
     float_le (frame_start strip) frame_time \<and> float_le frame_time (frame_end strip)"

text \<open>
  Modelled from the spec: \<open>KeyframeStrip::chans_for_out\<close>, the strip's table for the
  Output (by its stable index), or none.
\<close>

definition chans_for_out :: "KeyframeStrip \<Rightarrow> Output \<Rightarrow> ChannelsForOutput option" where
  "chans_for_out ks out = channels ks (stable_index out)"

text \<open>
  Modelled from the spec: \<open>ChannelsForOutput::fcurve_find\<close>, the curve for the identifier
  (path, index), or none.
\<close>

definition fcurve_find :: "ChannelsForOutput \<Rightarrow> string \<Rightarrow> int \<Rightarrow> FCurve option" where
  "fcurve_find chans path idx = chans (path, idx)"

text \<open>
  Modelled from the spec: \<open>Animation::output_for_id\<close>, the Output of the Animation's
  Output table that is bound to the entity, or none if the entity is unbound.
\<close>

definition output_for_id :: "Animation \<Rightarrow> ID \<Rightarrow> Output option" where
  "output_for_id anim animated_id = find (\<lambda>out. bound_id out = Some animated_id) (outputs anim)"

text \<open>
  Modelled from the spec: the Animation's ordered Layers as the code reaches them, the
  count \<open>anim.layer_array_num\<close> and the accessor \<open>anim.layer(layer_idx)\<close>.
\<close>

definition layer_array_num :: "Animation \<Rightarrow> nat" where
  "layer_array_num anim = length (layers anim)"

definition layer :: "Animation \<Rightarrow> nat \<Rightarrow> Layer" where
  "layer anim layer_idx = layers anim ! layer_idx"

section \<open>Property-path lookup: \<open>fcurve_find_by_rna_path\<close>\<close>

text \<open>
  The state of the search is the pair \<open>(found_on_other_strip, found_at_time_distance)\<close>.
  A loop either returns a curve at once (\<open>Inl\<close>, the \<open>return fcu\<close> of the exact match) or
  runs to its end with the state it reached (\<open>Inr\<close>).
\<close>

type_synonym search_state = "FCurve option \<times> float"

text \<open>The body of the inner loop, for one strip.\<close>

definition visit_strip ::
  "(rat \<Rightarrow> float) \<Rightarrow> Output \<Rightarrow> float \<Rightarrow> string \<Rightarrow> int \<Rightarrow> Strip \<Rightarrow> search_state
     \<Rightarrow> FCurve + search_state" where
  "visit_strip rnd out frame_time path idx strip st =
     (case strip_type strip of
        ANIM_STRIP_TYPE_KEYFRAME \<Rightarrow>
          (case chans_for_out (key_strip strip) out of
             None \<Rightarrow> Inr st
           | Some chans \<Rightarrow>
               (case fcurve_find chans path idx of
                  None \<Rightarrow> Inr st
                | Some fcu \<Rightarrow>
                    if contains_frame strip frame_time then Inl fcu
                    else
                      let this_distance =
                            min_ff (fabs (float_sub rnd frame_time (frame_start strip)))
                                   (fabs (float_sub rnd frame_time (frame_end strip)))
                      in if float_lt this_distance (snd st)
                         then Inr (Some fcu, this_distance)
                         else Inr st)))"

text \<open>The inner loop, over the strips of one layer in stored order.\<close>

fun scan_strips ::
  "(rat \<Rightarrow> float) \<Rightarrow> Output \<Rightarrow> float \<Rightarrow> string \<Rightarrow> int \<Rightarrow> Strip list \<Rightarrow> search_state
     \<Rightarrow> FCurve + search_state" where
  "scan_strips rnd out frame_time path idx [] st = Inr st"
| "scan_strips rnd out frame_time path idx (strip # rest) st =
     (case visit_strip rnd out frame_time path idx strip st of
        Inl fcu \<Rightarrow> Inl fcu
      | Inr st' \<Rightarrow> scan_strips rnd out frame_time path idx rest st')"

text \<open>
  The outer loop, \<open>for (layer_idx = layer_array_num - 1; layer_idx >= 0; layer_idx--)\<close>:
  the argument \<open>n\<close> is \<open>layer_idx + 1\<close>, the number of layers still to visit.
\<close>

fun scan_layers ::
  "(rat \<Rightarrow> float) \<Rightarrow> Animation \<Rightarrow> Output \<Rightarrow> float \<Rightarrow> string \<Rightarrow> int \<Rightarrow> nat \<Rightarrow> search_state
     \<Rightarrow> FCurve + search_state" where
  "scan_layers rnd anim out frame_time path idx 0 st = Inr st"
| "scan_layers rnd anim out frame_time path idx (Suc layer_idx) st =
     (case scan_strips rnd out frame_time path idx (strips (layer anim layer_idx)) st of
        Inl fcu \<Rightarrow> Inl fcu
      | Inr st' \<Rightarrow> scan_layers rnd anim out frame_time path idx layer_idx st')"

text \<open>
  The function: none for an entity without an Output; else the search over all layers from
  \<open>(nullptr, infinity)\<close>, which ends early with an exact match or with the best strip
  found off the time.
\<close>

definition fcurve_find_by_rna_path ::
  "(rat \<Rightarrow> float) \<Rightarrow> Animation \<Rightarrow> ID \<Rightarrow> float \<Rightarrow> string \<Rightarrow> int \<Rightarrow> FCurve option" where
  "fcurve_find_by_rna_path rnd anim animated_id frame_time path idx =
     (case output_for_id anim animated_id of
        None \<Rightarrow> None
      | Some out \<Rightarrow>
          (case scan_layers rnd anim out frame_time path idx (layer_array_num anim) (None, PInf) of
             Inl fcu \<Rightarrow> Some fcu
           | Inr (found_on_other_strip, found_at_time_distance) \<Rightarrow> found_on_other_strip))"

subsection \<open>Notions the properties of the lookup are stated with\<close>

text \<open>
  The curve a strip carries for an Output and a Property Identifier: the strip's table for
  the Output, then the identifier in that table.
\<close>

definition strip_fcurve :: "output_index \<Rightarrow> string \<Rightarrow> int \<Rightarrow> Strip \<Rightarrow> FCurve option" where
  "strip_fcurve out_idx path idx strip =
     (case channels (key_strip strip) out_idx of
        None \<Rightarrow> None
      | Some chans \<Rightarrow> chans (path, idx))"

definition carries :: "output_index \<Rightarrow> string \<Rightarrow> int \<Rightarrow> Strip \<Rightarrow> bool" where
  "carries out_idx path idx strip \<longleftrightarrow> strip_fcurve out_idx path idx strip \<noteq> None"

text \<open>An exact match: the strip carries the identifier and its range contains the time.\<close>

definition exact_match :: "output_index \<Rightarrow> float \<Rightarrow> string \<Rightarrow> int \<Rightarrow> Strip \<Rightarrow> bool" where
  "exact_match out_idx frame_time path idx strip \<longleftrightarrow>
     carries out_idx path idx strip \<and> contains_frame strip frame_time"

text \<open>The boundary distance of a strip, as the search computes it.\<close>

definition strip_distance :: "(rat \<Rightarrow> float) \<Rightarrow> float \<Rightarrow> Strip \<Rightarrow> float" where
  "strip_distance rnd frame_time strip =
     min_ff (fabs (float_sub rnd frame_time (frame_start strip)))
            (fabs (float_sub rnd frame_time (frame_end strip)))"

text \<open>
  The top-down scan order: the strips of the last layer in stored order, then those of the
  layer below it, down to the first layer.
\<close>

definition scan_order :: "Animation \<Rightarrow> Strip list" where
  "scan_order anim = concat (map strips (rev (layers anim)))"

text \<open>
  A strip \<open>s\<close> found between the strips \<open>pre\<close> scanned before it and the strips \<open>post\<close>
  scanned after it is the nearest one, first among equals: no carrying strip scanned
  before it is as near or nearer, and no carrying strip scanned after it is strictly nearer.
\<close>

definition nearest ::
  "(rat \<Rightarrow> float) \<Rightarrow> output_index \<Rightarrow> float \<Rightarrow> string \<Rightarrow> int
     \<Rightarrow> Strip list \<Rightarrow> Strip \<Rightarrow> Strip list \<Rightarrow> bool" where
  "nearest rnd out_idx frame_time path idx pre s post \<longleftrightarrow>
     (\<forall>s' \<in> set pre. carries out_idx path idx s' \<longrightarrow>
         \<not> float_le (strip_distance rnd frame_time s') (strip_distance rnd frame_time s)) \<and>
     (\<forall>s' \<in> set post. carries out_idx path idx s' \<longrightarrow>
         \<not> float_lt (strip_distance rnd frame_time s') (strip_distance rnd frame_time s))"

section \<open>Layer evaluation: \<open>evaluate_layer\<close>\<close>

text \<open>
  The animated entity of the evaluation test: an \<open>Object\<close> with its stored location and
  rotation.
\<close>

record Object =
  id_name :: ID
  loc :: "float list"
  rot :: "float list"

record AnimationEvalContext =
  eval_time :: float

record AnimatedProperty =
  prop_value :: float

type_synonym EvaluationResult = "PropIdentifier \<rightharpoonup> AnimatedProperty"

text \<open>
  Modelled from the spec: \<open>evaluate_layer\<close> is defined in \<open>evaluation.cc\<close>, which is not
  among the sources (its test \<open>evaluation_test.cc\<close> is). Following the spec: the strips of
  the layer are visited in stored order; a Keyframe Strip without a table for the Output
  is skipped; for every identifier of the table its curve is evaluated at the context's
  time, whatever the strip's range, and written into the result over any earlier entry.
  The curve evaluator is the external capability \<open>evaluate(time) -> value\<close>, a parameter
  \<open>ev\<close>. The entity handed in through \<open>animated_id_ptr\<close> is returned beside the result:
  the spec's contract is that evaluation never touches it.
\<close>

definition evaluate_strip ::
  "(FCurve \<Rightarrow> float \<Rightarrow> float) \<Rightarrow> output_index \<Rightarrow> float \<Rightarrow> Strip \<Rightarrow> EvaluationResult
     \<Rightarrow> EvaluationResult" where
  "evaluate_strip ev out_idx t strip result =
     (case strip_type strip of
        ANIM_STRIP_TYPE_KEYFRAME \<Rightarrow>
          (case channels (key_strip strip) out_idx of
             None \<Rightarrow> result
           | Some chans \<Rightarrow>
               result ++ (\<lambda>p. map_option (\<lambda>fcu. \<lparr>prop_value = ev fcu t\<rparr>) (chans p))))"

text \<open>
  Modelled from the spec: the iteration over the layer's strips in their stored order, each
  strip writing over the result of the strips before it.
\<close>

fun evaluate_strips ::
  "(FCurve \<Rightarrow> float \<Rightarrow> float) \<Rightarrow> output_index \<Rightarrow> float \<Rightarrow> Strip list \<Rightarrow> EvaluationResult
     \<Rightarrow> EvaluationResult" where
  "evaluate_strips ev out_idx t [] result = result"
| "evaluate_strips ev out_idx t (strip # rest) result =
     evaluate_strips ev out_idx t rest (evaluate_strip ev out_idx t strip result)"

text \<open>
  Modelled from the spec: \<open>evaluate_layer\<close> itself, called as in the test with the entity,
  the layer, the Output's stable index and the evaluation context; the result starts empty.
\<close>

definition evaluate_layer ::
  "(FCurve \<Rightarrow> float \<Rightarrow> float) \<Rightarrow> Object \<Rightarrow> Layer \<Rightarrow> output_index \<Rightarrow> AnimationEvalContext
     \<Rightarrow> EvaluationResult \<times> Object" where
  "evaluate_layer ev animated_id_ptr lay out_idx anim_eval_context =
     (evaluate_strips ev out_idx (eval_time anim_eval_context) (strips lay) Map.empty,
      animated_id_ptr)"

text \<open>
  Modelled from the spec: the curve evaluator for keyframes with linear interpolation
  (\<open>BEZT_IPO_LIN\<close> in the test's settings); the code is not among the sources. Between two
  keyframes the value is interpolated linearly, in exact arithmetic. Before the first and
  after the last keyframe the model holds the end value, and at a non-finite time it yields
  NaN; the spec fixes neither, and nothing below relies on them.
\<close>

fun interpolate_linear :: "(rat \<times> rat) list \<Rightarrow> rat \<Rightarrow> rat" where
  "interpolate_linear [] t = 0"
| "interpolate_linear [(t0, v0)] t = v0"
| "interpolate_linear ((t0, v0) # (t1, v1) # keys) t =
     (if t \<le> t0 then v0
      else if t \<le> t1 then v0 + (v1 - v0) * ((t - t0) / (t1 - t0))
      else interpolate_linear ((t1, v1) # keys) t)"

text \<open>
  Modelled from the spec: the linear evaluator as a curve evaluator \<open>evaluate(time) -> value\<close>
  on the keyframes of an F-Curve.
\<close>

definition evaluate_fcurve_linear :: "FCurve \<Rightarrow> float \<Rightarrow> float" where
  "evaluate_fcurve_linear fcu t =
     (case t of Finite r \<Rightarrow> Finite (interpolate_linear (bezt fcu) r) | _ \<Rightarrow> NaN)"

section \<open>The validity-marking pass: \<open>reevaluate_fcurve_errors\<close>\<close>

text \<open>
  The pass works on F-Curves through pointers, so the F-Curves live in a heap, a function
  from addresses to F-Curves. An element of the filtered list names its entity
  (\<open>ale->id\<close>) and points to its F-Curve (\<open>ale->key_data\<close>). Of the animation context the
  pass itself touches the dope sheet's filter flags only (\<open>ac->ads->filterflag\<close>, an
  \<open>int\<close>); \<open>fcu->flag\<close> is a \<open>short\<close>.
\<close>

record bAnimListElem =
  ale_id :: ID
  key_data :: nat

record bDopeSheet =
  filterflag :: "32 word"

record bAnimContext =
  ads :: bDopeSheet

type_synonym fcurve_heap = "nat \<Rightarrow> FCurve"

text \<open>
  Not among the sources, and parameters of the model therefore: the masks
  \<open>ADS_FILTER_ONLY_ERRORS\<close> and \<open>FCURVE_DISABLED\<close> (\<open>DNA_action_types.h\<close>,
  \<open>DNA_anim_types.h\<close>), the channel filter \<open>ANIM_animdata_filter\<close>, which reads the context
  and the animation data and yields the list of elements, and the property-path resolver
  \<open>RNA_path_resolve_property\<close>, which says whether a path resolves against an entity.
\<close>

text \<open>
  The context the filter is run in: the only-show-errors flag is taken off when it is set
  (\<open>filtering_enabled\<close>), so that the filter does not skip the F-Curves that have not been
  validated yet.
\<close>

definition suspend_filter :: "32 word \<Rightarrow> bAnimContext \<Rightarrow> bAnimContext" where
  "suspend_filter ADS_FILTER_ONLY_ERRORS ac =
     (let filtering_enabled = (filterflag (ads ac) AND ADS_FILTER_ONLY_ERRORS \<noteq> 0)
      in if filtering_enabled
         then ac\<lparr>ads := (ads ac)\<lparr>filterflag := filterflag (ads ac) AND NOT ADS_FILTER_ONLY_ERRORS\<rparr>\<rparr>
         else ac)"

text \<open>
  The body of the loop over the filtered list, for one element: the disabled flag of the
  element's F-Curve is cleared when its path resolves against the element's entity, and
  set when it does not.
\<close>

definition validate_fcurve ::
  "16 word \<Rightarrow> (ID \<Rightarrow> string \<Rightarrow> bool) \<Rightarrow> bAnimListElem \<Rightarrow> fcurve_heap \<Rightarrow> fcurve_heap" where
  "validate_fcurve FCURVE_DISABLED resolve ale heap =
     (let fcu = heap (key_data ale)
      in if resolve (ale_id ale) (rna_path fcu)
         then heap(key_data ale := fcu\<lparr>flag := flag fcu AND NOT FCURVE_DISABLED\<rparr>)
         else heap(key_data ale := fcu\<lparr>flag := flag fcu OR FCURVE_DISABLED\<rparr>))"

fun validate_all ::
  "16 word \<Rightarrow> (ID \<Rightarrow> string \<Rightarrow> bool) \<Rightarrow> bAnimListElem list \<Rightarrow> fcurve_heap \<Rightarrow> fcurve_heap" where
  "validate_all FCURVE_DISABLED resolve [] heap = heap"
| "validate_all FCURVE_DISABLED resolve (ale # rest) heap =
     validate_all FCURVE_DISABLED resolve rest (validate_fcurve FCURVE_DISABLED resolve ale heap)"

text \<open>
  The pass: the state is the animation context and the heap of F-Curves. The filter flag is
  set again at the end when it was set at the start.
\<close>

definition reevaluate_fcurve_errors ::
  "32 word \<Rightarrow> 16 word \<Rightarrow> (bAnimContext \<Rightarrow> fcurve_heap \<Rightarrow> bAnimListElem list)
     \<Rightarrow> (ID \<Rightarrow> string \<Rightarrow> bool) \<Rightarrow> bAnimContext \<times> fcurve_heap \<Rightarrow> bAnimContext \<times> fcurve_heap" where
  "reevaluate_fcurve_errors ADS_FILTER_ONLY_ERRORS FCURVE_DISABLED ANIM_animdata_filter resolve s =
     (let ac = fst s; heap = snd s;
          filtering_enabled = (filterflag (ads ac) AND ADS_FILTER_ONLY_ERRORS \<noteq> 0);
          ac1 = suspend_filter ADS_FILTER_ONLY_ERRORS ac;
          anim_data = ANIM_animdata_filter ac1 heap;
          heap' = validate_all FCURVE_DISABLED resolve anim_data heap;
          ac2 = (if filtering_enabled
                 then ac1\<lparr>ads := (ads ac1)\<lparr>filterflag := filterflag (ads ac1) OR ADS_FILTER_ONLY_ERRORS\<rparr>\<rparr>
                 else ac1)
      in (ac2, heap'))"

subsection \<open>Notions the properties of the pass are stated with\<close>

text \<open>
  An F-Curve with its disabled flag cleared or set, and the last element of the filtered
  list that points to a given F-Curve.
\<close>

definition marked :: "16 word \<Rightarrow> bool \<Rightarrow> FCurve \<Rightarrow> FCurve" where
  "marked FCURVE_DISABLED resolves fcu =
     fcu\<lparr>flag := (if resolves then flag fcu AND NOT FCURVE_DISABLED
                    else flag fcu OR FCURVE_DISABLED)\<rparr>"

definition last_visit :: "bAnimListElem list \<Rightarrow> nat \<Rightarrow> bAnimListElem option" where
  "last_visit anim_data a = find (\<lambda>ale. key_data ale = a) (rev anim_data)"

section \<open>Example data\<close>

text \<open>
  One Output with stable index 0, bound to the object \<open>OBCube\<close>; strips that carry a single
  curve for \<open>location[0]\<close>, the curves told apart by the value of their only keyframe; an
  Animation given by the strips of its layers, first layer first.
\<close>

definition cube_out :: Output where
  "cube_out = \<lparr>stable_index = 0, bound_id = Some ''OBCube''\<rparr>"

definition loc0_curve :: "rat \<Rightarrow> FCurve" where
  "loc0_curve v = \<lparr>rna_path = ''location'', array_index = 0, flag = 0, bezt = [(1, v)]\<rparr>"

definition loc0_strip :: "rat \<Rightarrow> rat \<Rightarrow> FCurve \<Rightarrow> Strip" where
  "loc0_strip a b c =
     \<lparr>frame_start = Finite a, frame_end = Finite b, strip_type = ANIM_STRIP_TYPE_KEYFRAME,
      key_strip = \<lparr>channels = [0 \<mapsto> [(''location'', 0) \<mapsto> c]]\<rparr>\<rparr>"

definition anim_of :: "Strip list list \<Rightarrow> Animation" where
  "anim_of sss =
     \<lparr>layers = map (\<lambda>ss. \<lparr>name = ''Layer'', strips = ss\<rparr>) sss, outputs = [cube_out]\<rparr>"

text \<open>
  The scenario of the evaluation test: the cube with its location and rotation set, and a
  layer with one Keyframe Strip holding the keys the test inserts for the Output,
  \<open>location[0]\<close> from 47.1 at time 1 to 47.5 at time 5 and \<open>rotation_euler[1]\<close> from 0 to
  3.14. The stable index of the Output and the range of the strip are the test's defaults,
  which the sources at hand do not show; they are left open.
\<close>

definition cube :: Object where
  "cube = \<lparr>id_name = ''OBKubus'',
            loc = [Finite 3, Finite 2, Finite 7], rot = [Finite 3, Finite 2, Finite 7]\<rparr>"



text \<open>
  A run of the validity-marking pass: two F-Curves of \<open>OBCube\<close> at the addresses 0 and 1.
  The first has a path that resolves and carries a stale disabled flag (bit 10); the second
  has a path that does not resolve and carries another flag bit. The filter shows both
  channels, or, while the only-show-errors bit (bit 28, the mask 268435456) is set, the
  disabled ones alone.
\<close>

definition example_heap :: fcurve_heap where
  "example_heap =
     (\<lambda>a. \<lparr>rna_path = [], array_index = 0, flag = 0, bezt = []\<rparr>)
       (0 := \<lparr>rna_path = ''location'', array_index = 0, flag = 1024, bezt = [(1, 2)]\<rparr>,
        1 := \<lparr>rna_path = ''missing'', array_index = 0, flag = 1, bezt = [(1, 3)]\<rparr>)"

definition example_channels :: "bAnimListElem list" where
  "example_channels = [\<lparr>ale_id = ''OBCube'', key_data = 0\<rparr>, \<lparr>ale_id = ''OBCube'', key_data = 1\<rparr>]"

definition example_filter :: "bAnimContext \<Rightarrow> fcurve_heap \<Rightarrow> bAnimListElem list" where
  "example_filter ac heap =
     (if filterflag (ads ac) AND 268435456 \<noteq> 0
      then filter (\<lambda>ale. flag (heap (key_data ale)) AND 1024 \<noteq> 0) example_channels
      else example_channels)"

definition example_resolve :: "ID \<Rightarrow> string \<Rightarrow> bool" where
  "example_resolve animated_id path \<longleftrightarrow> animated_id = ''OBCube'' \<and> path = ''location''"

text \<open>
  A filtered list in which one F-Curve, at address 0, is listed twice, for \<open>OBCube\<close> and
  then for \<open>OBLamp\<close>; its path resolves against the first and not against the second, and
  its disabled flag is clear.
\<close>

definition shared_heap :: fcurve_heap where
  "shared_heap =
     (\<lambda>a. \<lparr>rna_path = [], array_index = 0, flag = 0, bezt = []\<rparr>)
       (0 := \<lparr>rna_path = ''location'', array_index = 0, flag = 0, bezt = [(1, 2)]\<rparr>)"

definition shared_channels :: "bAnimListElem list" where
  "shared_channels = [\<lparr>ale_id = ''OBCube'', key_data = 0\<rparr>, \<lparr>ale_id = ''OBLamp'', key_data = 0\<rparr>]"

definition shared_filter :: "bAnimContext \<Rightarrow> fcurve_heap \<Rightarrow> bAnimListElem list" where
  "shared_filter ac heap = shared_channels"

definition example_context :: bAnimContext where
  "example_context = \<lparr>ads = \<lparr>filterflag = 268435456 OR 5\<rparr>\<rparr>"

section \<open>Properties of the property-path lookup\<close>

subsection \<open>Comparisons of floats\<close>

lemma float_lt_trans: "float_lt a b \<Longrightarrow> float_lt b c \<Longrightarrow> float_lt a c"
  by (cases a; cases b; cases c) auto

lemma float_lt_not_le: "float_lt a b \<Longrightarrow> \<not> float_le b a"
  by (cases a; cases b) auto

lemma float_lt_bound: "float_lt a b \<Longrightarrow> \<not> float_lt x b \<Longrightarrow> \<not> float_le x a"
  by (cases a; cases b; cases x) auto

subsection \<open>The two loops as one scan\<close>

lemma visit_strip_eq:
  "visit_strip rnd out t path idx strip st =
     (case strip_fcurve (stable_index out) path idx strip of
        None \<Rightarrow> Inr st
      | Some fcu \<Rightarrow>
          if contains_frame strip t then Inl fcu
          else if float_lt (strip_distance rnd t strip) (snd st)
               then Inr (Some fcu, strip_distance rnd t strip)
               else Inr st)"
  by (cases "strip_type strip")
     (simp add: visit_strip_def strip_fcurve_def strip_distance_def chans_for_out_def
           fcurve_find_def Let_def split: option.splits)

lemma scan_strips_append:
  "scan_strips rnd out t path idx (xs @ ys) st =
     (case scan_strips rnd out t path idx xs st of
        Inl fcu \<Rightarrow> Inl fcu
      | Inr st' \<Rightarrow> scan_strips rnd out t path idx ys st')"
  by (induction xs arbitrary: st) (auto split: sum.splits)

lemma scan_layers_flat:
  "n \<le> length (layers anim) \<Longrightarrow>
   scan_layers rnd anim out t path idx n st =
     scan_strips rnd out t path idx (concat (map strips (rev (take n (layers anim))))) st"
proof (induction n arbitrary: st)
  case 0
  then show ?case by simp
next
  case (Suc n)
  then have "take (Suc n) (layers anim) = take n (layers anim) @ [layers anim ! n]"
    by (simp add: take_Suc_conv_app_nth)
  with Suc show ?case
    by (simp add: scan_strips_append layer_def split: sum.splits)
qed

lemma find_by_rna_path_scan:
  "output_for_id anim animated_id = Some out \<Longrightarrow>
   fcurve_find_by_rna_path rnd anim animated_id t path idx =
     (case scan_strips rnd out t path idx (scan_order anim) (None, PInf) of
        Inl fcu \<Rightarrow> Some fcu
      | Inr st \<Rightarrow> fst st)"
  by (simp add: fcurve_find_by_rna_path_def scan_layers_flat layer_array_num_def scan_order_def
        split: sum.splits prod.splits)

lemma set_scan_order: "set (scan_order anim) = (\<Union>l \<in> set (layers anim). set (strips l))"
  by (auto simp: scan_order_def)

lemma scan_order_layer:
  assumes "i < length (layers anim)"
  shows "scan_order anim =
           concat (map strips (rev (drop (Suc i) (layers anim)))) @ strips (layers anim ! i)
             @ concat (map strips (rev (take i (layers anim))))"
proof -
  from assms have "layers anim = take i (layers anim) @ layers anim ! i # drop (Suc i) (layers anim)"
    by (simp add: id_take_nth_drop [symmetric])
  then have "rev (layers anim) =
      rev (drop (Suc i) (layers anim)) @ layers anim ! i # rev (take i (layers anim))"
    by (metis rev.simps(2) rev_append append.assoc append_Cons append_Nil)
  then show ?thesis by (simp add: scan_order_def)
qed

subsection \<open>The scan stops at the first exact match\<close>

lemma scan_strips_exact:
  assumes "\<forall>s' \<in> set pre. \<not> exact_match (stable_index out) t path idx s'"
    and "strip_fcurve (stable_index out) path idx s = Some c" and "contains_frame s t"
  shows "scan_strips rnd out t path idx (pre @ s # post) st = Inl c"
  using assms
proof (induction pre arbitrary: st)
  case Nil
  then show ?case by (simp add: visit_strip_eq)
next
  case (Cons x pre)
  then show ?case
    by (auto simp: visit_strip_eq exact_match_def carries_def split: option.splits)
qed

lemma find_by_rna_path_exact:
  assumes "output_for_id anim animated_id = Some out"
    and "scan_order anim = pre @ s # post"
    and "\<forall>s' \<in> set pre. \<not> exact_match (stable_index out) t path idx s'"
    and "strip_fcurve (stable_index out) path idx s = Some c" and "contains_frame s t"
  shows "fcurve_find_by_rna_path rnd anim animated_id t path idx = Some c"
  using assms by (simp add: find_by_rna_path_scan scan_strips_exact)

lemma find_by_rna_path_first_exact:
  assumes "output_for_id anim animated_id = Some out"
    and "\<exists>s \<in> set (scan_order anim). exact_match (stable_index out) t path idx s"
  shows "\<exists>s \<in> set (scan_order anim). \<exists>c. strip_fcurve (stable_index out) path idx s = Some c \<and>
           contains_frame s t \<and> fcurve_find_by_rna_path rnd anim animated_id t path idx = Some c"
proof -
  from split_list_first_prop [OF assms(2)]
  obtain pre s post where so: "scan_order anim = pre @ s # post"
    and s: "exact_match (stable_index out) t path idx s"
    and pre: "\<forall>s' \<in> set pre. \<not> exact_match (stable_index out) t path idx s'"
    by blast
  from s obtain c where c: "strip_fcurve (stable_index out) path idx s = Some c"
    and ct: "contains_frame s t"
    by (auto simp: exact_match_def carries_def)
  from assms(1) so pre c ct
  have "fcurve_find_by_rna_path rnd anim animated_id t path idx = Some c"
    by (rule find_by_rna_path_exact)
  moreover from so have "s \<in> set (scan_order anim)" by simp
  ultimately show ?thesis using c ct by blast
qed

subsection \<open>Without an exact match the scan keeps the nearest strip\<close>

lemma nearest_Cons:
  "nearest rnd out_idx t path idx pre s post \<Longrightarrow>
   (carries out_idx path idx x \<Longrightarrow>
      \<not> float_le (strip_distance rnd t x) (strip_distance rnd t s)) \<Longrightarrow>
   nearest rnd out_idx t path idx (x # pre) s post"
  by (simp add: nearest_def)

lemma scan_strips_fallback:
  assumes "\<forall>s' \<in> set ss. \<not> exact_match (stable_index out) t path idx s'"
  shows "(scan_strips rnd out t path idx ss st = Inr st \<and>
            (\<forall>s' \<in> set ss. carries (stable_index out) path idx s' \<longrightarrow>
                 \<not> float_lt (strip_distance rnd t s') (snd st)))
       \<or> (\<exists>pre s post c. ss = pre @ s # post \<and>
             strip_fcurve (stable_index out) path idx s = Some c \<and>
             scan_strips rnd out t path idx ss st = Inr (Some c, strip_distance rnd t s) \<and>
             float_lt (strip_distance rnd t s) (snd st) \<and>
             nearest rnd (stable_index out) t path idx pre s post)"
    (is "?keep ss st \<or> ?best ss st")
  using assms
proof (induction ss arbitrary: st)
  case Nil
  then show ?case by simp
next
  case (Cons x xs)
  from Cons.prems have nx: "\<not> exact_match (stable_index out) t path idx x"
    and nxs: "\<forall>s' \<in> set xs. \<not> exact_match (stable_index out) t path idx s'"
    by simp_all
  let ?d = "strip_distance rnd t"
  let ?scan = "scan_strips rnd out t path idx"
  have skip: "?best (x # xs) st"
    if step: "?scan (x # xs) st = ?scan xs st" and best: "?best xs st"
      and far: "carries (stable_index out) path idx x \<Longrightarrow> \<not> float_lt (?d x) (snd st)"
  proof -
    from best obtain pre s post c where b: "xs = pre @ s # post"
      "strip_fcurve (stable_index out) path idx s = Some c"
      "?scan xs st = Inr (Some c, ?d s)" "float_lt (?d s) (snd st)"
      "nearest rnd (stable_index out) t path idx pre s post"
      by blast
    from b(4) far have "carries (stable_index out) path idx x \<Longrightarrow> \<not> float_le (?d x) (?d s)"
      by (rule float_lt_bound)
    with b(5) have "nearest rnd (stable_index out) t path idx (x # pre) s post"
      by (rule nearest_Cons)
    with b step have "x # xs = (x # pre) @ s # post \<and>
        strip_fcurve (stable_index out) path idx s = Some c \<and>
        ?scan (x # xs) st = Inr (Some c, ?d s) \<and> float_lt (?d s) (snd st) \<and>
        nearest rnd (stable_index out) t path idx (x # pre) s post"
      by simp
    then show ?thesis by blast
  qed
  show ?case
  proof (cases "strip_fcurve (stable_index out) path idx x")
    case None
    then have step: "?scan (x # xs) st = ?scan xs st"
      and ncx: "\<not> carries (stable_index out) path idx x"
      by (simp_all add: visit_strip_eq carries_def)
    from Cons.IH [OF nxs, of st] show ?thesis
    proof
      assume "?keep xs st"
      with step ncx have "?keep (x # xs) st" by simp
      then show ?thesis ..
    next
      assume "?best xs st"
      from skip [OF step this] ncx have "?best (x # xs) st" by blast
      then show ?thesis ..
    qed
  next
    case (Some cx)
    with nx have ncont: "\<not> contains_frame x t"
      by (simp add: exact_match_def carries_def)
    show ?thesis
    proof (cases "float_lt (?d x) (snd st)")
      case False
      with Some ncont have step: "?scan (x # xs) st = ?scan xs st"
        by (simp add: visit_strip_eq)
      from Cons.IH [OF nxs, of st] show ?thesis
      proof
        assume "?keep xs st"
        with step False have "?keep (x # xs) st" by simp
        then show ?thesis ..
      next
        assume "?best xs st"
        from skip [OF step this] False have "?best (x # xs) st" by blast
        then show ?thesis ..
      qed
    next
      case True
      with Some ncont have step: "?scan (x # xs) st = ?scan xs (Some cx, ?d x)"
        by (simp add: visit_strip_eq)
      from Cons.IH [OF nxs, of "(Some cx, ?d x)"] show ?thesis
      proof
        assume "?keep xs (Some cx, ?d x)"
        then have "nearest rnd (stable_index out) t path idx [] x xs"
          and "?scan xs (Some cx, ?d x) = Inr (Some cx, ?d x)"
          by (simp_all add: nearest_def)
        with step Some True have "x # xs = [] @ x # xs \<and>
            strip_fcurve (stable_index out) path idx x = Some cx \<and>
            ?scan (x # xs) st = Inr (Some cx, ?d x) \<and> float_lt (?d x) (snd st) \<and>
            nearest rnd (stable_index out) t path idx [] x xs"
          by simp
        then have "?best (x # xs) st" by blast
        then show ?thesis ..
      next
        assume "?best xs (Some cx, ?d x)"
        then obtain pre s post c where b: "xs = pre @ s # post"
          "strip_fcurve (stable_index out) path idx s = Some c"
          "?scan xs (Some cx, ?d x) = Inr (Some c, ?d s)" "float_lt (?d s) (?d x)"
          "nearest rnd (stable_index out) t path idx pre s post"
          by auto
        from b(4) have "\<not> float_le (?d x) (?d s)" by (rule float_lt_not_le)
        with b(5) have n: "nearest rnd (stable_index out) t path idx (x # pre) s post"
          by (rule nearest_Cons)
        from b(4) True have "float_lt (?d s) (snd st)" by (rule float_lt_trans)
        with b n step have "x # xs = (x # pre) @ s # post \<and>
            strip_fcurve (stable_index out) path idx s = Some c \<and>
            ?scan (x # xs) st = Inr (Some c, ?d s) \<and> float_lt (?d s) (snd st) \<and>
            nearest rnd (stable_index out) t path idx (x # pre) s post"
          by simp
        then have "?best (x # xs) st" by blast
        then show ?thesis ..
      qed
    qed
  qed
qed

text \<open>The same for the whole search, which starts from \<open>(nullptr, infinity)\<close>.\<close>

lemma find_by_rna_path_fallback:
  assumes "output_for_id anim animated_id = Some out"
    and "\<forall>s \<in> set (scan_order anim). \<not> exact_match (stable_index out) t path idx s"
  shows "(fcurve_find_by_rna_path rnd anim animated_id t path idx = None \<and>
            (\<forall>s \<in> set (scan_order anim). carries (stable_index out) path idx s \<longrightarrow>
                 \<not> float_lt (strip_distance rnd t s) PInf))
       \<or> (\<exists>pre s post c. scan_order anim = pre @ s # post \<and>
             strip_fcurve (stable_index out) path idx s = Some c \<and>
             fcurve_find_by_rna_path rnd anim animated_id t path idx = Some c \<and>
             float_lt (strip_distance rnd t s) PInf \<and>
             nearest rnd (stable_index out) t path idx pre s post)"
  using scan_strips_fallback [OF assms(2), of rnd "(None, PInf)"] assms(1)
  by (auto simp: find_by_rna_path_scan)

subsection \<open>The example data, evaluated\<close>

lemma output_for_id_anim_of:
  "output_for_id (anim_of sss) ''OBCube'' = Some cube_out"
  "output_for_id (anim_of sss) ''OBLamp'' = None"
  "stable_index cube_out = 0"
  by (simp_all add: output_for_id_def anim_of_def cube_out_def)

lemma layers_anim_of:
  "layers (anim_of sss) = map (\<lambda>ss. \<lparr>name = ''Layer'', strips = ss\<rparr>) sss"
  by (simp add: anim_of_def)

lemma scan_order_anim_of: "scan_order (anim_of sss) = concat (rev sss)"
  by (simp add: scan_order_def anim_of_def rev_map o_def)

lemma loc0_strip_simps:
  "strip_fcurve 0 path idx (loc0_strip a b c)
     = (if path = ''location'' \<and> idx = 0 then Some c else None)"
  "carries 0 path idx (loc0_strip a b c) \<longleftrightarrow> path = ''location'' \<and> idx = 0"
  "contains_frame (loc0_strip a b c) (Finite t) \<longleftrightarrow> a \<le> t \<and> t \<le> b"
  "\<not> contains_frame (loc0_strip a b c) PInf"
  "\<not> contains_frame (loc0_strip a b c) MInf"
  "strip_distance Finite (Finite t) (loc0_strip a b c) = Finite (min \<bar>t - a\<bar> \<bar>t - b\<bar>)"
  "strip_distance Finite PInf (loc0_strip a b c) = PInf"
  "strip_distance Finite MInf (loc0_strip a b c) = PInf"
  by (auto simp: strip_fcurve_def carries_def loc0_strip_def contains_frame_def
        strip_distance_def min_ff_def)

subsection \<open>The claims about the lookup\<close>

text \<open>
  C2. If some Keyframe Strip of some Layer carries the requested identifier for the entity's
  Output and its range contains the query time, the lookup returns the curve of a strip
  that carries the identifier and contains the time, whatever the other strips are, also
  when a strip that does not contain the time carries the identifier at a smaller boundary
  distance.
\<close>

theorem exact_match_priority:
  assumes "output_for_id anim animated_id = Some out"
    and "\<exists>l \<in> set (layers anim). \<exists>s \<in> set (strips l).
           carries (stable_index out) path idx s \<and> contains_frame s t"
  shows "\<exists>l \<in> set (layers anim). \<exists>s \<in> set (strips l). \<exists>c.
           strip_fcurve (stable_index out) path idx s = Some c \<and> contains_frame s t \<and>
           fcurve_find_by_rna_path rnd anim animated_id t path idx = Some c"
proof -
  from assms(2) have "\<exists>s \<in> set (scan_order anim). exact_match (stable_index out) t path idx s"
    by (auto simp: set_scan_order exact_match_def)
  with assms(1) have "\<exists>s \<in> set (scan_order anim). \<exists>c.
      strip_fcurve (stable_index out) path idx s = Some c \<and> contains_frame s t \<and>
      fcurve_find_by_rna_path rnd anim animated_id t path idx = Some c"
    by (rule find_by_rna_path_first_exact)
  then show ?thesis
    unfolding set_scan_order by blast
qed

text \<open>
  At time 50 the strip [0, 100] of the first layer contains the time, at boundary distance
  50; the strip [51, 60] of the layer above does not, at distance 1. The curve of the
  first is returned.
\<close>

theorem exact_match_priority_witness:
  "output_for_id (anim_of [[loc0_strip 0 100 (loc0_curve 1)], [loc0_strip 51 60 (loc0_curve 2)]])
       ''OBCube'' = Some cube_out \<and>
   (\<exists>l \<in> set (layers (anim_of [[loc0_strip 0 100 (loc0_curve 1)], [loc0_strip 51 60 (loc0_curve 2)]])).
      \<exists>s \<in> set (strips l). carries (stable_index cube_out) ''location'' 0 s \<and>
        contains_frame s (Finite 50)) \<and>
   strip_distance Finite (Finite 50) (loc0_strip 51 60 (loc0_curve 2)) = Finite 1 \<and>
   fcurve_find_by_rna_path Finite
       (anim_of [[loc0_strip 0 100 (loc0_curve 1)], [loc0_strip 51 60 (loc0_curve 2)]])
       ''OBCube'' (Finite 50) ''location'' 0 = Some (loc0_curve 1)"
  using exact_match_priority [of
      "anim_of [[loc0_strip 0 100 (loc0_curve 1)], [loc0_strip 51 60 (loc0_curve 2)]]"
      "''OBCube''" cube_out "''location''" 0 "Finite 50" Finite]
  by (simp add: output_for_id_anim_of layers_anim_of loc0_strip_simps)

text \<open>
  C3. Layers are scanned from the last to the first, the strips of a layer in stored order:
  when layer \<open>i\<close> holds an exact match \<open>s\<close> (it carries the identifier and contains the
  time), no strip before \<open>s\<close> in that layer is an exact match and no layer above \<open>i\<close> holds
  one, the curve of \<open>s\<close> is returned, whatever exact matches the layers below hold.
\<close>

theorem top_down_precedence:
  assumes "output_for_id anim animated_id = Some out"
    and "i < length (layers anim)"
    and "strips (layers anim ! i) = pre @ s # post"
    and "strip_fcurve (stable_index out) path idx s = Some c" and "contains_frame s t"
    and "\<forall>s' \<in> set pre. \<not> exact_match (stable_index out) t path idx s'"
    and "\<forall>k. i < k \<and> k < length (layers anim) \<longrightarrow>
           (\<forall>s' \<in> set (strips (layers anim ! k)). \<not> exact_match (stable_index out) t path idx s')"
  shows "fcurve_find_by_rna_path rnd anim animated_id t path idx = Some c"
proof -
  let ?above = "concat (map strips (rev (drop (Suc i) (layers anim))))"
  let ?below = "concat (map strips (rev (take i (layers anim))))"
  from assms(2,3) have so: "scan_order anim = (?above @ pre) @ s # (post @ ?below)"
    by (simp add: scan_order_layer)
  have "\<forall>s' \<in> set ?above. \<not> exact_match (stable_index out) t path idx s'"
  proof
    fix s' assume "s' \<in> set ?above"
    then obtain l where l: "l \<in> set (drop (Suc i) (layers anim))" and s': "s' \<in> set (strips l)"
      by auto
    from l obtain j where "l = drop (Suc i) (layers anim) ! j"
      and "j < length (drop (Suc i) (layers anim))"
      by (auto simp: in_set_conv_nth)
    then have "l = layers anim ! (Suc i + j)"
      and "i < Suc i + j \<and> Suc i + j < length (layers anim)"
      by auto
    with assms(7) [rule_format, of "Suc i + j" s'] s'
    show "\<not> exact_match (stable_index out) t path idx s'"
      by simp
  qed
  with assms(6) have "\<forall>s' \<in> set (?above @ pre). \<not> exact_match (stable_index out) t path idx s'"
    unfolding set_append by blast
  with assms(1) so show ?thesis
    using assms(4,5) by (rule find_by_rna_path_exact)
qed

text \<open>
  Three layers at time 50. The top layer carries the identifier on [70, 80], which does not
  contain the time. The middle layer holds [0, 10] (no match), then [40, 60] and [45, 55],
  both exact matches. The bottom layer holds the exact match [0, 100]. The curve of
  [40, 60] is returned.
\<close>

theorem top_down_precedence_witness:
  "output_for_id (anim_of [[loc0_strip 0 100 (loc0_curve 1)],
                           [loc0_strip 0 10 (loc0_curve 2), loc0_strip 40 60 (loc0_curve 3),
                            loc0_strip 45 55 (loc0_curve 4)],
                           [loc0_strip 70 80 (loc0_curve 5)]]) ''OBCube'' = Some cube_out \<and>
   exact_match (stable_index cube_out) (Finite 50) ''location'' 0 (loc0_strip 0 100 (loc0_curve 1)) \<and>
   exact_match (stable_index cube_out) (Finite 50) ''location'' 0 (loc0_strip 40 60 (loc0_curve 3)) \<and>
   exact_match (stable_index cube_out) (Finite 50) ''location'' 0 (loc0_strip 45 55 (loc0_curve 4)) \<and>
   fcurve_find_by_rna_path Finite
       (anim_of [[loc0_strip 0 100 (loc0_curve 1)],
                 [loc0_strip 0 10 (loc0_curve 2), loc0_strip 40 60 (loc0_curve 3),
                  loc0_strip 45 55 (loc0_curve 4)],
                 [loc0_strip 70 80 (loc0_curve 5)]])
       ''OBCube'' (Finite 50) ''location'' 0 = Some (loc0_curve 3)"
proof -
  let ?A = "anim_of [[loc0_strip 0 100 (loc0_curve 1)],
                     [loc0_strip 0 10 (loc0_curve 2), loc0_strip 40 60 (loc0_curve 3),
                      loc0_strip 45 55 (loc0_curve 4)],
                     [loc0_strip 70 80 (loc0_curve 5)]]"
  have above: "\<forall>k. 1 < k \<and> k < length (layers ?A) \<longrightarrow>
      (\<forall>s' \<in> set (strips (layers ?A ! k)).
         \<not> exact_match (stable_index cube_out) (Finite 50) ''location'' 0 s')"
  proof (intro allI impI)
    fix k assume "1 < k \<and> k < length (layers ?A)"
    then have "k = 2" by (simp add: layers_anim_of)
    then show "\<forall>s' \<in> set (strips (layers ?A ! k)).
         \<not> exact_match (stable_index cube_out) (Finite 50) ''location'' 0 s'"
      by (simp add: layers_anim_of exact_match_def loc0_strip_simps)
  qed
  from top_down_precedence [of ?A "''OBCube''" cube_out 1 "[loc0_strip 0 10 (loc0_curve 2)]"
      "loc0_strip 40 60 (loc0_curve 3)" "[loc0_strip 45 55 (loc0_curve 4)]" "''location''" 0
      "loc0_curve 3" "Finite 50" Finite, OF _ _ _ _ _ _ above]
  show ?thesis
    by (simp add: output_for_id_anim_of layers_anim_of exact_match_def loc0_strip_simps)
qed

text \<open>
  C4, as the code has it. When no strip that carries the identifier contains the time and
  at least one of them lies at a computed boundary distance below +infinity, the lookup
  returns the curve of the nearest carrying strip of the whole top-down scan, whatever its
  layer: its computed distance is below +infinity, no carrying strip scanned before it is as
  near or nearer, none scanned after it is strictly nearer. So among strips at equal
  distance the one scanned first is returned.
\<close>

theorem nearest_fallback:
  assumes "output_for_id anim animated_id = Some out"
    and "\<forall>s \<in> set (scan_order anim).
           carries (stable_index out) path idx s \<longrightarrow> \<not> contains_frame s t"
    and "\<exists>s \<in> set (scan_order anim).
           carries (stable_index out) path idx s \<and> float_lt (strip_distance rnd t s) PInf"
  shows "\<exists>pre s post c. scan_order anim = pre @ s # post \<and>
           strip_fcurve (stable_index out) path idx s = Some c \<and>
           fcurve_find_by_rna_path rnd anim animated_id t path idx = Some c \<and>
           float_lt (strip_distance rnd t s) PInf \<and>
           nearest rnd (stable_index out) t path idx pre s post"
proof -
  from assms(2) have "\<forall>s \<in> set (scan_order anim). \<not> exact_match (stable_index out) t path idx s"
    by (simp add: exact_match_def)
  from find_by_rna_path_fallback [OF assms(1) this, of rnd] assms(3)
  show ?thesis by blast
qed

text \<open>
  At time 50: the top layer holds [80, 90], at distance 30; the layer below holds [0, 10]
  at distance 40, then [30, 40] and [60, 70], both at distance 10. The curve of [30, 40]
  is returned: the nearest wins though it is in the lower layer, and of the two at distance
  10 the one scanned first.
\<close>

theorem nearest_fallback_witness:
  "output_for_id (anim_of [[loc0_strip 0 10 (loc0_curve 2), loc0_strip 30 40 (loc0_curve 3),
                            loc0_strip 60 70 (loc0_curve 4)],
                           [loc0_strip 80 90 (loc0_curve 1)]]) ''OBCube'' = Some cube_out \<and>
   scan_order (anim_of [[loc0_strip 0 10 (loc0_curve 2), loc0_strip 30 40 (loc0_curve 3),
                            loc0_strip 60 70 (loc0_curve 4)],
                           [loc0_strip 80 90 (loc0_curve 1)]])
     = [loc0_strip 80 90 (loc0_curve 1), loc0_strip 0 10 (loc0_curve 2)]
         @ loc0_strip 30 40 (loc0_curve 3) # [loc0_strip 60 70 (loc0_curve 4)] \<and>
   nearest Finite (stable_index cube_out) (Finite 50) ''location'' 0
     [loc0_strip 80 90 (loc0_curve 1), loc0_strip 0 10 (loc0_curve 2)]
     (loc0_strip 30 40 (loc0_curve 3)) [loc0_strip 60 70 (loc0_curve 4)] \<and>
   (\<exists>pre s post c.
      scan_order (anim_of [[loc0_strip 0 10 (loc0_curve 2), loc0_strip 30 40 (loc0_curve 3),
                            loc0_strip 60 70 (loc0_curve 4)],
                           [loc0_strip 80 90 (loc0_curve 1)]]) = pre @ s # post \<and>
      strip_fcurve (stable_index cube_out) ''location'' 0 s = Some c \<and>
      fcurve_find_by_rna_path Finite
        (anim_of [[loc0_strip 0 10 (loc0_curve 2), loc0_strip 30 40 (loc0_curve 3),
                   loc0_strip 60 70 (loc0_curve 4)],
                  [loc0_strip 80 90 (loc0_curve 1)]])
        ''OBCube'' (Finite 50) ''location'' 0 = Some c \<and>
      float_lt (strip_distance Finite (Finite 50) s) PInf \<and>
      nearest Finite (stable_index cube_out) (Finite 50) ''location'' 0 pre s post)"
proof -
  let ?A = "anim_of [[loc0_strip 0 10 (loc0_curve 2), loc0_strip 30 40 (loc0_curve 3),
                      loc0_strip 60 70 (loc0_curve 4)],
                     [loc0_strip 80 90 (loc0_curve 1)]]"
  have h1: "output_for_id ?A ''OBCube'' = Some cube_out"
    by (simp add: output_for_id_anim_of)
  have h2: "\<forall>s \<in> set (scan_order ?A).
      carries (stable_index cube_out) ''location'' 0 s \<longrightarrow> \<not> contains_frame s (Finite 50)"
    by (simp add: scan_order_anim_of output_for_id_anim_of loc0_strip_simps)
  have h3: "\<exists>s \<in> set (scan_order ?A). carries (stable_index cube_out) ''location'' 0 s \<and>
      float_lt (strip_distance Finite (Finite 50) s) PInf"
    by (simp add: scan_order_anim_of output_for_id_anim_of loc0_strip_simps)
  have so: "scan_order ?A = [loc0_strip 80 90 (loc0_curve 1), loc0_strip 0 10 (loc0_curve 2)]
         @ loc0_strip 30 40 (loc0_curve 3) # [loc0_strip 60 70 (loc0_curve 4)]"
    by (simp add: scan_order_anim_of)
  have n: "nearest Finite (stable_index cube_out) (Finite 50) ''location'' 0
     [loc0_strip 80 90 (loc0_curve 1), loc0_strip 0 10 (loc0_curve 2)]
     (loc0_strip 30 40 (loc0_curve 3)) [loc0_strip 60 70 (loc0_curve 4)]"
    by (simp add: nearest_def output_for_id_anim_of loc0_strip_simps)
  from h1 so n nearest_fallback [OF h1 h2 h3] show ?thesis by blast
qed

lemma nearest_fallback_example:
  "fcurve_find_by_rna_path Finite
     (anim_of [[loc0_strip 0 10 (loc0_curve 2), loc0_strip 30 40 (loc0_curve 3),
                loc0_strip 60 70 (loc0_curve 4)],
               [loc0_strip 80 90 (loc0_curve 1)]])
     ''OBCube'' (Finite 50) ''location'' 0 = Some (loc0_curve 3)"
  by (simp add: find_by_rna_path_scan [OF output_for_id_anim_of(1)] scan_order_anim_of
        visit_strip_eq output_for_id_anim_of loc0_strip_simps)

text \<open>
  C4 as it is stated fails where every boundary distance is +infinity: at the query time
  -infinity the only strip that carries the identifier, [0, 10], does not contain the time
  and is trivially the nearest, and the lookup returns none.
\<close>

theorem nearest_fallback_counterexample:
  "output_for_id (anim_of [[loc0_strip 0 10 (loc0_curve 1)]]) ''OBCube'' = Some cube_out \<and>
   scan_order (anim_of [[loc0_strip 0 10 (loc0_curve 1)]]) = [loc0_strip 0 10 (loc0_curve 1)] \<and>
   strip_fcurve (stable_index cube_out) ''location'' 0 (loc0_strip 0 10 (loc0_curve 1))
     = Some (loc0_curve 1) \<and>
   \<not> contains_frame (loc0_strip 0 10 (loc0_curve 1)) MInf \<and>
   strip_distance Finite MInf (loc0_strip 0 10 (loc0_curve 1)) = PInf \<and>
   fcurve_find_by_rna_path Finite (anim_of [[loc0_strip 0 10 (loc0_curve 1)]])
     ''OBCube'' MInf ''location'' 0 = None"
  by (simp add: find_by_rna_path_scan [OF output_for_id_anim_of(1)] scan_order_anim_of
        visit_strip_eq output_for_id_anim_of loc0_strip_simps)

text \<open>
  C5, as the code has it. For an entity without an Output the lookup returns none. For a
  bound entity it returns none exactly when every strip that carries the identifier for
  the Output neither contains the time nor lies at a computed boundary distance below
  +infinity; in
  particular it returns none when no strip carries the identifier, and some curve when a
  carrying strip contains the time or lies at a finite distance.
\<close>

theorem none_iff_nothing_in_reach:
  "(output_for_id anim animated_id = None \<longrightarrow>
      fcurve_find_by_rna_path rnd anim animated_id t path idx = None) \<and>
   (\<forall>out. output_for_id anim animated_id = Some out \<longrightarrow>
      (fcurve_find_by_rna_path rnd anim animated_id t path idx = None \<longleftrightarrow>
         (\<forall>s \<in> set (scan_order anim). carries (stable_index out) path idx s \<longrightarrow>
            \<not> contains_frame s t \<and> \<not> float_lt (strip_distance rnd t s) PInf)))"
proof (intro conjI impI allI)
  assume "output_for_id anim animated_id = None"
  then show "fcurve_find_by_rna_path rnd anim animated_id t path idx = None"
    by (simp add: fcurve_find_by_rna_path_def)
next
  fix out assume out: "output_for_id anim animated_id = Some out"
  let ?r = "fcurve_find_by_rna_path rnd anim animated_id t path idx"
  let ?far = "\<forall>s \<in> set (scan_order anim). carries (stable_index out) path idx s \<longrightarrow>
            \<not> contains_frame s t \<and> \<not> float_lt (strip_distance rnd t s) PInf"
  show "?r = None \<longleftrightarrow> ?far"
  proof (cases "\<exists>s \<in> set (scan_order anim). exact_match (stable_index out) t path idx s")
    case True
    with out have "\<exists>s \<in> set (scan_order anim). \<exists>c.
        strip_fcurve (stable_index out) path idx s = Some c \<and> contains_frame s t \<and> ?r = Some c"
      by (rule find_by_rna_path_first_exact)
    then have "?r \<noteq> None" by auto
    moreover from True have "\<not> ?far" by (auto simp: exact_match_def)
    ultimately show ?thesis by blast
  next
    case False
    then have nex: "\<forall>s \<in> set (scan_order anim). \<not> exact_match (stable_index out) t path idx s"
      by simp
    from find_by_rna_path_fallback [OF out nex, of rnd] show ?thesis
    proof
      assume k: "?r = None \<and> (\<forall>s \<in> set (scan_order anim).
          carries (stable_index out) path idx s \<longrightarrow> \<not> float_lt (strip_distance rnd t s) PInf)"
      with nex have ?far by (auto simp: exact_match_def)
      with k show ?thesis by blast
    next
      assume "\<exists>pre s post c. scan_order anim = pre @ s # post \<and>
          strip_fcurve (stable_index out) path idx s = Some c \<and> ?r = Some c \<and>
          float_lt (strip_distance rnd t s) PInf \<and>
          nearest rnd (stable_index out) t path idx pre s post"
      then obtain pre s post c where b: "scan_order anim = pre @ s # post"
        "strip_fcurve (stable_index out) path idx s = Some c" "?r = Some c"
        "float_lt (strip_distance rnd t s) PInf"
        by blast
      then have "\<not> ?far" by (auto simp: carries_def)
      with b(3) show ?thesis by auto
    qed
  qed
qed

text \<open>
  The object \<open>OBLamp\<close> has no Output; for \<open>OBCube\<close> no strip carries \<open>scale[0]\<close>, and the
  strip [0, 10] carries \<open>location[0]\<close> at distance 40 from time 50.
\<close>

theorem none_iff_nothing_in_reach_witness:
  "output_for_id (anim_of [[loc0_strip 0 10 (loc0_curve 1)]]) ''OBLamp'' = None \<and>
   fcurve_find_by_rna_path Finite (anim_of [[loc0_strip 0 10 (loc0_curve 1)]])
     ''OBLamp'' (Finite 50) ''location'' 0 = None \<and>
   output_for_id (anim_of [[loc0_strip 0 10 (loc0_curve 1)]]) ''OBCube'' = Some cube_out \<and>
   fcurve_find_by_rna_path Finite (anim_of [[loc0_strip 0 10 (loc0_curve 1)]])
     ''OBCube'' (Finite 50) ''scale'' 0 = None \<and>
   fcurve_find_by_rna_path Finite (anim_of [[loc0_strip 0 10 (loc0_curve 1)]])
     ''OBCube'' (Finite 50) ''location'' 0 \<noteq> None"
  using none_iff_nothing_in_reach [of "anim_of [[loc0_strip 0 10 (loc0_curve 1)]]" "''OBLamp''"
      Finite "Finite 50" "''location''" 0]
    none_iff_nothing_in_reach [of "anim_of [[loc0_strip 0 10 (loc0_curve 1)]]" "''OBCube''"
      Finite "Finite 50" "''scale''" 0]
    none_iff_nothing_in_reach [of "anim_of [[loc0_strip 0 10 (loc0_curve 1)]]" "''OBCube''"
      Finite "Finite 50" "''location''" 0]
  by (simp add: output_for_id_anim_of scan_order_anim_of loc0_strip_simps)

text \<open>
  C5 as it is stated fails at the query time +infinity: \<open>OBCube\<close> is bound and the strip
  [0, 10] carries \<open>location[0]\<close>, yet the lookup returns none, the strip's distance
  +infinity not being below the initial \<open>found_at_time_distance\<close>.
\<close>

theorem none_iff_carried_counterexample:
  "output_for_id (anim_of [[loc0_strip 0 10 (loc0_curve 1)]]) ''OBCube'' = Some cube_out \<and>
   loc0_strip 0 10 (loc0_curve 1) \<in> set (strips (layers (anim_of [[loc0_strip 0 10 (loc0_curve 1)]]) ! 0)) \<and>
   carries (stable_index cube_out) ''location'' 0 (loc0_strip 0 10 (loc0_curve 1)) \<and>
   fcurve_find_by_rna_path Finite (anim_of [[loc0_strip 0 10 (loc0_curve 1)]])
     ''OBCube'' PInf ''location'' 0 = None"
  by (simp add: find_by_rna_path_scan [OF output_for_id_anim_of(1)] scan_order_anim_of
        layers_anim_of visit_strip_eq output_for_id_anim_of loc0_strip_simps)

subsection \<open>Finite times\<close>

lemma strip_distance_finite:
  assumes rnd: "\<And>q. \<exists>r. rnd q = Finite r"
    and le: "float_le (frame_start s) (frame_end s)"
    and ends: "frame_start s \<noteq> PInf" "frame_end s \<noteq> MInf"
    and out: "\<not> contains_frame s (Finite t)"
  shows "float_lt (strip_distance rnd (Finite t) s) PInf"
proof -
  have fin: "float_lt (fabs (rnd q)) PInf" for q
    using rnd [of q] by auto
  have top: "\<not> float_lt PInf x" for x
    by (cases x) auto
  show ?thesis
  proof (cases "frame_start s")
    case NaN
    with le show ?thesis by simp
  next
    case MInf
    with le ends out show ?thesis
      by (cases "frame_end s")
        (auto simp: strip_distance_def contains_frame_def min_ff_def fin top)
  next
    case (Finite a)
    with le ends out show ?thesis
      by (cases "frame_end s")
        (auto simp: strip_distance_def contains_frame_def min_ff_def fin top)
  next
    case PInf
    with ends show ?thesis by simp
  qed
qed

text \<open>
  On the inputs the animation system works with the lookup finds a curve whenever one is
  carried: for a finite query time, a subtraction that does not overflow, and strips with
  \<open>frame_start \<le> frame_end\<close> that do not start at +infinity or end at -infinity, a bound
  entity gets none exactly when no strip carries the identifier.
\<close>

lemma none_iff_not_carried_finite:
  assumes "output_for_id anim animated_id = Some out"
    and rnd: "\<And>q. \<exists>r. rnd q = Finite r"
    and wf: "\<forall>s \<in> set (scan_order anim). float_le (frame_start s) (frame_end s) \<and>
               frame_start s \<noteq> PInf \<and> frame_end s \<noteq> MInf"
  shows "fcurve_find_by_rna_path rnd anim animated_id (Finite t) path idx = None \<longleftrightarrow>
           (\<forall>s \<in> set (scan_order anim). \<not> carries (stable_index out) path idx s)"
proof (cases "\<exists>s \<in> set (scan_order anim). exact_match (stable_index out) (Finite t) path idx s")
  case True
  with assms(1) have "\<exists>s \<in> set (scan_order anim). \<exists>c.
      strip_fcurve (stable_index out) path idx s = Some c \<and> contains_frame s (Finite t) \<and>
      fcurve_find_by_rna_path rnd anim animated_id (Finite t) path idx = Some c"
    by (rule find_by_rna_path_first_exact)
  with True show ?thesis by (auto simp: exact_match_def)
next
  case False
  then have nex: "\<forall>s \<in> set (scan_order anim). \<not> exact_match (stable_index out) (Finite t) path idx s"
    by simp
  have near: "float_lt (strip_distance rnd (Finite t) s) PInf"
    if "s \<in> set (scan_order anim)" "carries (stable_index out) path idx s" for s
  proof -
    from that nex have "\<not> contains_frame s (Finite t)" by (auto simp: exact_match_def)
    with wf that(1) show ?thesis by (intro strip_distance_finite rnd) auto
  qed
  from find_by_rna_path_fallback [OF assms(1) nex, of rnd] show ?thesis
  proof
    assume "fcurve_find_by_rna_path rnd anim animated_id (Finite t) path idx = None \<and>
      (\<forall>s \<in> set (scan_order anim). carries (stable_index out) path idx s \<longrightarrow>
         \<not> float_lt (strip_distance rnd (Finite t) s) PInf)"
    with near show ?thesis by blast
  next
    assume "\<exists>pre s post c. scan_order anim = pre @ s # post \<and>
      strip_fcurve (stable_index out) path idx s = Some c \<and>
      fcurve_find_by_rna_path rnd anim animated_id (Finite t) path idx = Some c \<and>
      float_lt (strip_distance rnd (Finite t) s) PInf \<and>
      nearest rnd (stable_index out) (Finite t) path idx pre s post"
    then obtain pre s post c where "scan_order anim = pre @ s # post"
      "strip_fcurve (stable_index out) path idx s = Some c"
      "fcurve_find_by_rna_path rnd anim animated_id (Finite t) path idx = Some c"
      by blast
    then show ?thesis by (auto simp: carries_def)
  qed
qed

section \<open>Properties of the layer evaluation\<close>

lemma evaluate_strip_apply:
  "evaluate_strip ev out_idx t strip result (path, idx) =
     (case strip_fcurve out_idx path idx strip of
        None \<Rightarrow> result (path, idx)
      | Some fcu \<Rightarrow> Some \<lparr>prop_value = ev fcu t\<rparr>)"
  by (cases "strip_type strip")
     (simp add: evaluate_strip_def strip_fcurve_def map_add_def split: option.splits)

lemma evaluate_strips_append:
  "evaluate_strips ev out_idx t (xs @ ys) result =
     evaluate_strips ev out_idx t ys (evaluate_strips ev out_idx t xs result)"
  by (induction xs arbitrary: result) simp_all

lemma evaluate_strips_apply:
  "evaluate_strips ev out_idx t ss result (path, idx) =
     (case find (carries out_idx path idx) (rev ss) of
        None \<Rightarrow> result (path, idx)
      | Some s \<Rightarrow>
          map_option (\<lambda>fcu. \<lparr>prop_value = ev fcu t\<rparr>) (strip_fcurve out_idx path idx s))"
proof (induction ss rule: rev_induct)
  case Nil
  then show ?case by simp
next
  case (snoc x xs)
  then show ?case
    by (simp add: evaluate_strips_append evaluate_strip_apply carries_def split: option.splits)
qed

lemma evaluate_strip_range:
  "evaluate_strip ev out_idx t (strip\<lparr>frame_start := a, frame_end := b\<rparr>) result
     = evaluate_strip ev out_idx t strip result"
  by (cases "strip_type strip") (simp add: evaluate_strip_def)

lemma evaluate_strips_range:
  "evaluate_strips ev out_idx t (map (\<lambda>s. s\<lparr>frame_start := a s, frame_end := b s\<rparr>) ss) result
     = evaluate_strips ev out_idx t ss result"
  by (induction ss arbitrary: result) (simp_all add: evaluate_strip_range)

text \<open>
  C6. For each Property Identifier the result of \<open>evaluate_layer\<close> holds the value of the
  curve of the last strip, in stored order, that carries the identifier for the Output,
  evaluated at the context's time; it has no entry when no strip carries it. The ranges of
  the strips play no part: the result is the same whatever \<open>frame_start\<close> and \<open>frame_end\<close>
  the strips are given.
\<close>

theorem evaluate_layer_last_strip_wins:
  "fst (evaluate_layer ev animated_id_ptr lay out_idx anim_eval_context) (path, idx) =
     (case find (carries out_idx path idx) (rev (strips lay)) of
        None \<Rightarrow> None
      | Some s \<Rightarrow>
          map_option (\<lambda>fcu. \<lparr>prop_value = ev fcu (eval_time anim_eval_context)\<rparr>)
            (strip_fcurve out_idx path idx s)) \<and>
   fst (evaluate_layer ev animated_id_ptr
          (lay\<lparr>strips := map (\<lambda>s. s\<lparr>frame_start := a s, frame_end := b s\<rparr>) (strips lay)\<rparr>)
          out_idx anim_eval_context)
     = fst (evaluate_layer ev animated_id_ptr lay out_idx anim_eval_context)"
  by (simp add: evaluate_layer_def evaluate_strips_apply evaluate_strips_range)

text \<open>
  Two strips carry \<open>location[0]\<close>, the first on [0, 10] and the second on [20, 30]. At time
  3, inside the range of the first and outside that of the second, the result holds the
  value of the second strip's curve.
\<close>

theorem evaluate_layer_last_strip_wins_witness:
  "fst (evaluate_layer evaluate_fcurve_linear cube
          \<lparr>name = ''Layer'', strips = [loc0_strip 0 10 (loc0_curve 1), loc0_strip 20 30 (loc0_curve 2)]\<rparr>
          0 \<lparr>eval_time = Finite 3\<rparr>) (''location'', 0)
     = Some \<lparr>prop_value = Finite 2\<rparr>"
  using evaluate_layer_last_strip_wins [of evaluate_fcurve_linear cube
      "\<lparr>name = ''Layer'', strips = [loc0_strip 0 10 (loc0_curve 1), loc0_strip 20 30 (loc0_curve 2)]\<rparr>"
      0 "\<lparr>eval_time = Finite 3\<rparr>" "''location''" 0]
  by (simp add: loc0_strip_simps evaluate_fcurve_linear_def loc0_curve_def)



section \<open>Properties of the validity-marking pass\<close>

lemma word_clear_set:
  fixes x d :: "'a::len word"
  shows "(x AND NOT d) AND d = 0" "(x OR d) AND d = d"
    "(x OR d) AND NOT d = x AND NOT d" "(x AND NOT d) OR d = x OR d"
    "(x AND NOT d) AND NOT d = x AND NOT d" "(x OR d) OR d = x OR d"
  by (auto simp: bit_eq_iff bit_and_iff bit_or_iff bit_not_iff)

lemma word_single_bit:
  fixes w :: "'a::len word"
  assumes "w AND 2 ^ n \<noteq> 0"
  shows "w OR 2 ^ n = w"
proof -
  have "\<exists>k. bit (w AND 2 ^ n) k"
  proof (rule ccontr)
    assume "\<not> (\<exists>k. bit (w AND 2 ^ n) k)"
    then have "w AND 2 ^ n = 0"
      by (intro bit_word_eqI) simp
    with assms show False by simp
  qed
  then have "bit w n"
    by (auto simp: bit_and_iff bit_exp_iff)
  then show ?thesis
    by (intro bit_word_eqI) (auto simp: bit_or_iff bit_exp_iff)
qed

lemma marked_marked:
  "marked d ok (marked d ok' fcu) = marked d ok fcu"
  "rna_path (marked d ok fcu) = rna_path fcu"
  by (simp_all add: marked_def word_clear_set)

lemma validate_fcurve_apply:
  "validate_fcurve d res ale heap a =
     (if a = key_data ale then marked d (res (ale_id ale) (rna_path (heap a))) (heap a)
      else heap a)"
  by (simp add: validate_fcurve_def marked_def Let_def)

lemma validate_all_append:
  "validate_all d res (xs @ ys) heap = validate_all d res ys (validate_all d res xs heap)"
  by (induction xs arbitrary: heap) simp_all

lemma validate_all_apply:
  "validate_all d res anim_data heap a =
     (case last_visit anim_data a of
        None \<Rightarrow> heap a
      | Some ale \<Rightarrow> marked d (res (ale_id ale) (rna_path (heap a))) (heap a))"
proof (induction anim_data rule: rev_induct)
  case Nil
  then show ?case by (simp add: last_visit_def)
next
  case (snoc x xs)
  then show ?case
    by (auto simp: validate_all_append validate_fcurve_apply last_visit_def marked_marked
          split: option.splits)
qed

lemma validate_all_idem:
  "validate_all d res anim_data (validate_all d res anim_data heap)
     = validate_all d res anim_data heap"
  by (rule ext) (simp add: validate_all_apply [of _ _ _ "validate_all d res anim_data heap"]
        validate_all_apply [of _ _ _ heap] marked_marked split: option.splits)

lemma find_SomeD: "find P xs = Some x \<Longrightarrow> P x \<and> x \<in> set xs"
  by (induction xs) (auto split: if_splits)

lemma last_visit_Some:
  assumes "ale \<in> set anim_data"
  shows "\<exists>ale' \<in> set anim_data. key_data ale' = key_data ale \<and>
      last_visit anim_data (key_data ale) = Some ale'"
proof (cases "last_visit anim_data (key_data ale)")
  case None
  with assms show ?thesis by (auto simp: last_visit_def find_None_iff)
next
  case (Some ale')
  then have "key_data ale' = key_data ale \<and> ale' \<in> set (rev anim_data)"
    unfolding last_visit_def by (rule find_SomeD)
  with Some show ?thesis by simp
qed

lemma last_visit_None: "a \<notin> key_data ` set anim_data \<Longrightarrow> last_visit anim_data a = None"
  by (auto simp: last_visit_def find_None_iff)

lemma suspend_filter_restore:
  "suspend_filter m
     (if filterflag (ads ac) AND m \<noteq> 0
      then (suspend_filter m ac)\<lparr>ads := (ads (suspend_filter m ac))
              \<lparr>filterflag := filterflag (ads (suspend_filter m ac)) OR m\<rparr>\<rparr>
      else suspend_filter m ac)
   = suspend_filter m ac"
  by (simp add: suspend_filter_def Let_def word_clear_set)


lemma suspend_filter_clear: "filterflag (ads (suspend_filter m ac)) AND m = 0"
  by (simp add: suspend_filter_def Let_def word_clear_set)

lemma reevaluate_fcurve_errors_eq:
  "reevaluate_fcurve_errors m d filt res (ac, heap) =
     (if filterflag (ads ac) AND m \<noteq> 0
      then (suspend_filter m ac)\<lparr>ads := (ads (suspend_filter m ac))
              \<lparr>filterflag := filterflag (ads (suspend_filter m ac)) OR m\<rparr>\<rparr>
      else suspend_filter m ac,
      validate_all d res (filt (suspend_filter m ac) heap) heap)"
  by (simp add: reevaluate_fcurve_errors_def Let_def)

lemma reevaluate_fcurve_errors_again:
  assumes "reevaluate_fcurve_errors m d filt res (ac, heap) = (ac', heap')"
    and "filt (suspend_filter m ac') heap' = filt (suspend_filter m ac) heap"
  shows "reevaluate_fcurve_errors m d filt res (ac', heap') = (ac', heap')"
proof -
  let ?ac1 = "suspend_filter m ac"
  from assms(1) have heap': "heap' = validate_all d res (filt ?ac1 heap) heap"
    and ac': "ac' = (if filterflag (ads ac) AND m \<noteq> 0
        then ?ac1\<lparr>ads := (ads ?ac1)\<lparr>filterflag := filterflag (ads ?ac1) OR m\<rparr>\<rparr> else ?ac1)"
    by (simp_all add: reevaluate_fcurve_errors_eq)
  from ac' have s: "suspend_filter m ac' = ?ac1"
    by (simp only: suspend_filter_restore)
  have f: "filterflag (ads ac') AND m \<noteq> 0 \<longleftrightarrow> filterflag (ads ac) AND m \<noteq> 0"
    by (auto simp: ac' suspend_filter_def Let_def word_clear_set)
  have v: "validate_all d res (filt ?ac1 heap) heap' = heap'"
    by (simp add: heap' validate_all_idem)
  have "reevaluate_fcurve_errors m d filt res (ac', heap') =
      (if filterflag (ads ac) AND m \<noteq> 0
       then ?ac1\<lparr>ads := (ads ?ac1)\<lparr>filterflag := filterflag (ads ?ac1) OR m\<rparr>\<rparr> else ?ac1, heap')"
    unfolding reevaluate_fcurve_errors_eq s f assms(2) [unfolded s] v ..
  also have "\<dots> = (ac', heap')"
    by (simp only: ac')
  finally show ?thesis .
qed

text \<open>
  C8, as the code has it. Let \<open>anim_data\<close> be the channels the pass visits. For each of them
  the disabled flag of its F-Curve is, after the pass, what the last element of the list
  that points to this F-Curve makes it: clear if the path resolves against that element's
  entity, set if it does not. So for a channel whose F-Curve is listed for its entity only,
  the flag is clear if the path resolves against the channel's entity and set if it does
  not. Of every F-Curve of the heap the pass changes at most that flag: all other fields,
  the curve data among them, and all other flag bits keep their values, and an F-Curve
  that is not visited stays as it is. Run again on the same channels, the pass changes
  nothing.
\<close>

theorem validity_pass:
  assumes "anim_data = filt (suspend_filter m ac) heap"
    and "reevaluate_fcurve_errors m d filt res (ac, heap) = (ac', heap')"
  shows "(\<forall>ale \<in> set anim_data. \<exists>final \<in> set anim_data.
            last_visit anim_data (key_data ale) = Some final \<and> key_data final = key_data ale \<and>
            flag (heap' (key_data ale)) AND d
              = (if res (ale_id final) (rna_path (heap (key_data ale))) then 0 else d)) \<and>
         (\<forall>ale \<in> set anim_data.
            (\<forall>ale' \<in> set anim_data. key_data ale' = key_data ale \<longrightarrow> ale_id ale' = ale_id ale) \<longrightarrow>
            flag (heap' (key_data ale)) AND d
              = (if res (ale_id ale) (rna_path (heap (key_data ale))) then 0 else d)) \<and>
         (\<forall>a. heap' a = (heap a)\<lparr>flag := flag (heap' a)\<rparr> \<and>
              flag (heap' a) AND NOT d = flag (heap a) AND NOT d) \<and>
         (\<forall>a. a \<notin> key_data ` set anim_data \<longrightarrow> heap' a = heap a) \<and>
         (filt (suspend_filter m ac') heap' = anim_data \<longrightarrow>
            reevaluate_fcurve_errors m d filt res (ac', heap') = (ac', heap'))"
proof (intro conjI ballI allI impI)
  from assms have heap': "heap' = validate_all d res anim_data heap"
    by (simp add: reevaluate_fcurve_errors_eq)
  have decided: "\<exists>final \<in> set anim_data.
      last_visit anim_data (key_data ale) = Some final \<and> key_data final = key_data ale \<and>
      flag (heap' (key_data ale)) AND d
        = (if res (ale_id final) (rna_path (heap (key_data ale))) then 0 else d)"
    if ale: "ale \<in> set anim_data" for ale
  proof -
    from last_visit_Some [OF ale] obtain final where final: "final \<in> set anim_data"
      "key_data final = key_data ale" "last_visit anim_data (key_data ale) = Some final"
      by blast
    from final(3) have "flag (heap' (key_data ale)) AND d
        = (if res (ale_id final) (rna_path (heap (key_data ale))) then 0 else d)"
      by (simp add: heap' validate_all_apply marked_def word_clear_set)
    with final show ?thesis by blast
  qed
  {
    fix ale
    assume "ale \<in> set anim_data"
    then show "\<exists>final \<in> set anim_data.
      last_visit anim_data (key_data ale) = Some final \<and> key_data final = key_data ale \<and>
      flag (heap' (key_data ale)) AND d
        = (if res (ale_id final) (rna_path (heap (key_data ale))) then 0 else d)"
      by (rule decided)
  }
  {
    fix ale
    assume ale: "ale \<in> set anim_data"
      and one: "\<forall>ale' \<in> set anim_data. key_data ale' = key_data ale \<longrightarrow> ale_id ale' = ale_id ale"
    from decided [OF ale] obtain final where "final \<in> set anim_data"
      "key_data final = key_data ale"
      "flag (heap' (key_data ale)) AND d
        = (if res (ale_id final) (rna_path (heap (key_data ale))) then 0 else d)"
      by blast
    with one show "flag (heap' (key_data ale)) AND d
        = (if res (ale_id ale) (rna_path (heap (key_data ale))) then 0 else d)"
      by simp
  }
  {
    fix a
    show "heap' a = (heap a)\<lparr>flag := flag (heap' a)\<rparr>"
      by (simp add: heap' validate_all_apply marked_def split: option.splits)
    show "flag (heap' a) AND NOT d = flag (heap a) AND NOT d"
      by (simp add: heap' validate_all_apply marked_def word_clear_set split: option.splits)
  }
  {
    fix a assume "a \<notin> key_data ` set anim_data"
    then show "heap' a = heap a"
      by (simp add: heap' validate_all_apply last_visit_None)
  }
  {
    assume "filt (suspend_filter m ac') heap' = anim_data"
    with assms(1) have "filt (suspend_filter m ac') heap' = filt (suspend_filter m ac) heap"
      by simp
    with assms(2) show "reevaluate_fcurve_errors m d filt res (ac', heap') = (ac', heap')"
      by (rule reevaluate_fcurve_errors_again)
  }
qed

lemma example_pass_context:
  "filterflag (ads example_context) AND 268435456 \<noteq> 0"
  "filterflag (ads (suspend_filter 268435456 example_context)) = 5"
  by (simp_all add: example_context_def suspend_filter_def Let_def)

lemma example_pass_channels:
  "example_filter example_context example_heap = [\<lparr>ale_id = ''OBCube'', key_data = 0\<rparr>]"
  "example_filter (suspend_filter 268435456 ac) heap = example_channels"
  by (simp_all add: example_filter_def example_pass_context example_channels_def example_heap_def
        suspend_filter_clear)

theorem validity_pass_witness:
  "example_channels = example_filter (suspend_filter 268435456 example_context) example_heap \<and>
   flag (snd (reevaluate_fcurve_errors 268435456 1024 example_filter example_resolve
                (example_context, example_heap)) 0) AND 1024 = 0 \<and>
   flag (snd (reevaluate_fcurve_errors 268435456 1024 example_filter example_resolve
                (example_context, example_heap)) 1) AND 1024 = 1024 \<and>
   flag (snd (reevaluate_fcurve_errors 268435456 1024 example_filter example_resolve
                (example_context, example_heap)) 1) AND NOT 1024 = 1 \<and>
   bezt (snd (reevaluate_fcurve_errors 268435456 1024 example_filter example_resolve
                (example_context, example_heap)) 1) = [(1, 3)] \<and>
   reevaluate_fcurve_errors 268435456 1024 example_filter example_resolve
     (reevaluate_fcurve_errors 268435456 1024 example_filter example_resolve
        (example_context, example_heap))
   = reevaluate_fcurve_errors 268435456 1024 example_filter example_resolve
        (example_context, example_heap)"
proof -
  let ?R = "reevaluate_fcurve_errors 268435456 1024 example_filter example_resolve
              (example_context, example_heap)"
  have ch: "example_channels
      = example_filter (suspend_filter 268435456 example_context) example_heap"
    by (simp only: example_pass_channels)
  have R: "?R = (fst ?R, snd ?R)" by simp
  have again: "example_filter (suspend_filter 268435456 (fst ?R)) (snd ?R) = example_channels"
    by (simp only: example_pass_channels)
  note v = validity_pass [OF ch R]
  note v_own = v [THEN conjunct2, THEN conjunct1]
  note v_flag = v [THEN conjunct2, THEN conjunct2, THEN conjunct1]
  note v_rerun = v [THEN conjunct2, THEN conjunct2, THEN conjunct2, THEN conjunct2]
  from v_own have marks: "\<forall>ale \<in> set example_channels.
      (\<forall>ale' \<in> set example_channels. key_data ale' = key_data ale \<longrightarrow> ale_id ale' = ale_id ale) \<longrightarrow>
      flag (snd ?R (key_data ale)) AND 1024
        = (if example_resolve (ale_id ale) (rna_path (example_heap (key_data ale))) then 0 else 1024)" .
  from v_flag have only_flag: "snd ?R 1 = (example_heap 1)\<lparr>flag := flag (snd ?R 1)\<rparr>"
    and other_bits: "flag (snd ?R 1) AND NOT 1024 = flag (example_heap 1) AND NOT 1024"
    by blast+
  from v_rerun again have rerun: "reevaluate_fcurve_errors 268435456 1024 example_filter example_resolve
      (fst ?R, snd ?R) = (fst ?R, snd ?R)"
    by blast
  from marks have "flag (snd ?R 0) AND 1024 = 0" "flag (snd ?R 1) AND 1024 = 1024"
    by (simp_all add: example_channels_def example_resolve_def example_heap_def)
  moreover from other_bits have "flag (snd ?R 1) AND NOT 1024 = 1"
    by (simp add: example_heap_def)
  moreover have "bezt (snd ?R 1) = bezt ((example_heap 1)\<lparr>flag := flag (snd ?R 1)\<rparr>)"
    by (rule arg_cong [where f = bezt, OF only_flag])
  then have "bezt (snd ?R 1) = [(1, 3)]"
    by (simp add: example_heap_def)
  moreover from rerun have "reevaluate_fcurve_errors 268435456 1024 example_filter example_resolve ?R = ?R"
    by simp
  ultimately show ?thesis using ch by simp
qed

text \<open>
  C8 as it is stated fails for an F-Curve that the filtered list holds for two entities:
  the channel of \<open>OBCube\<close> is visited and its path resolves against \<open>OBCube\<close>, yet after the
  pass the disabled flag is set, by the later element for \<open>OBLamp\<close>, against which the path
  does not resolve.
\<close>

theorem validity_pass_counterexample:
  "\<lparr>ale_id = ''OBCube'', key_data = 0\<rparr>
     \<in> set (shared_filter (suspend_filter 268435456 example_context) shared_heap) \<and>
   example_resolve ''OBCube'' (rna_path (shared_heap 0)) \<and>
   flag (shared_heap 0) AND 1024 = 0 \<and>
   flag (snd (reevaluate_fcurve_errors 268435456 1024 shared_filter example_resolve
                (example_context, shared_heap)) 0) AND 1024 = 1024"
  by (simp add: reevaluate_fcurve_errors_eq shared_filter_def shared_channels_def
        shared_heap_def example_resolve_def validate_fcurve_def)

text \<open>
  C10. The only-show-errors mask being a single bit, the pass hands the animation context
  back as it received it: the filter flags are on return what they were before the call.
  While the filter runs the only-show-errors bit is clear and every other filter bit has
  its value; when the bit is clear at the start the flags are not written at all.
\<close>

theorem filter_flags_restored:
  assumes "m = push_bit n 1"
  shows "fst (reevaluate_fcurve_errors m d filt res (ac, heap)) = ac \<and>
         filterflag (ads (fst (reevaluate_fcurve_errors m d filt res (ac, heap))))
           = filterflag (ads ac) \<and>
         filterflag (ads (suspend_filter m ac)) AND m = 0 \<and>
         filterflag (ads (suspend_filter m ac)) AND NOT m = filterflag (ads ac) AND NOT m \<and>
         (filterflag (ads ac) AND m = 0 \<longrightarrow> suspend_filter m ac = ac)"
proof -
  have restore: "(filterflag (ads ac) AND NOT m) OR m = filterflag (ads ac)"
    if "filterflag (ads ac) AND m \<noteq> 0"
    using that by (simp add: word_clear_set word_single_bit assms)
  from restore have "fst (reevaluate_fcurve_errors m d filt res (ac, heap)) = ac"
    by (simp add: reevaluate_fcurve_errors_eq suspend_filter_def Let_def)
  moreover have "filterflag (ads (suspend_filter m ac)) AND m = 0"
    "filterflag (ads (suspend_filter m ac)) AND NOT m = filterflag (ads ac) AND NOT m"
    "filterflag (ads ac) AND m = 0 \<longrightarrow> suspend_filter m ac = ac"
    by (simp_all add: suspend_filter_def Let_def word_clear_set)
  ultimately show ?thesis by simp
qed

theorem filter_flags_restored_witness:
  "(268435456 :: 32 word) = push_bit 28 1 \<and>
   filterflag (ads example_context) AND 268435456 \<noteq> 0 \<and>
   filterflag (ads (suspend_filter 268435456 example_context)) = 5 \<and>
   fst (reevaluate_fcurve_errors 268435456 1024 example_filter example_resolve
          (example_context, example_heap)) = example_context"
  using filter_flags_restored [of 268435456 28 1024 example_filter example_resolve
      example_context example_heap]
  by (simp add: example_pass_context)

end
